theory Spec2Isabelle
  imports Main "HOL-Library.Word" "HOL-Library.Sublist"
begin

section \<open>JavaScript values\<close>

text \<open>
  A JavaScript string is a sequence of UTF-16 code units. Literals of the source are
  written \<open>str ''...''\<close>.
\<close>

type_synonym jsstring = "16 word list"

definition str :: "string \<Rightarrow> jsstring" where
  "str s = map of_char s"

text \<open>
  The primitive values a caller can pass. \<open>JUndefined\<close> is also what a parameter holds
  when the argument is left out. \<open>JNumber n\<close> is the Number of the integer \<open>n\<close>.
\<close>

datatype jsval = JUndefined | JNull | JString jsstring | JNumber int | JBoolean bool

text \<open>The only exception raised inside the module: the \<open>TypeError\<close> of the validator
  package's \<open>assertString\<close>.\<close>

datatype exn = TypeError

subsection \<open>String conversion, as done by \<open>'...' + value\<close>\<close>

function digits :: "nat \<Rightarrow> jsstring" where
  "digits n = (if n < 10 then [48 + of_nat n] else digits (n div 10) @ [48 + of_nat (n mod 10)])"
  by pat_completeness auto
termination
  by (relation "measure (\<lambda>n. n)") auto

text \<open>
  \<open>Number_toString\<close> writes the decimal digits of the integer. JavaScript prints exactly
  these for the safe integers (\<open>Number.isSafeInteger\<close>: magnitude below \<open>2^53\<close>), each of
  which is a Number of its own. Beyond them a Number stands for many integers and is
  printed with its shortest digits, then zeros or an exponent, which this model does not
  follow: what is stated about a number turned into text is stated for the values that
  \<open>prints_exactly\<close>.
\<close>

definition safe_integer :: "int \<Rightarrow> bool" where
  "safe_integer n = (- 9007199254740992 < n \<and> n < 9007199254740992)"

definition Number_toString :: "int \<Rightarrow> jsstring" where
  "Number_toString n = (if n < 0 then 45 # digits (nat (- n)) else digits (nat n))"

fun ToString :: "jsval \<Rightarrow> jsstring" where
  "ToString JUndefined = str ''undefined''"
| "ToString JNull = str ''null''"
| "ToString (JString s) = s"
| "ToString (JNumber n) = Number_toString n"
| "ToString (JBoolean b) = (if b then str ''true'' else str ''false'')"

fun prints_exactly :: "jsval \<Rightarrow> bool" where
  "prints_exactly (JNumber n) = safe_integer n"
| "prints_exactly _ = True"

subsection \<open>\<open>String.prototype.trim\<close>\<close>

text \<open>ECMAScript WhiteSpace: TAB, VT, FF, SP, NBSP, U+1680, U+2000..U+200A, U+202F,
  U+205F, U+3000, U+FEFF. LineTerminator: LF, CR, U+2028, U+2029.\<close>

definition WhiteSpace :: "16 word \<Rightarrow> bool" where
  "WhiteSpace c = (c = 9 \<or> c = 11 \<or> c = 12 \<or> c = 32 \<or> c = 160 \<or> c = 5760
     \<or> (8192 \<le> c \<and> c \<le> 8202) \<or> c = 8239 \<or> c = 8287 \<or> c = 12288 \<or> c = 65279)"

definition LineTerminator :: "16 word \<Rightarrow> bool" where
  "LineTerminator c = (c = 10 \<or> c = 13 \<or> c = 8232 \<or> c = 8233)"

definition trimmable :: "16 word \<Rightarrow> bool" where
  "trimmable c = (WhiteSpace c \<or> LineTerminator c)"

definition trim :: "jsstring \<Rightarrow> jsstring" where
  "trim s = rev (dropWhile trimmable (rev (dropWhile trimmable s)))"

section \<open>The dependencies: validator and axios\<close>

text \<open>
  The validator package is a dependency of the module. As its documentation says, it
  takes strings only: every function of it starts with \<open>assertString\<close>, which throws a
  \<open>TypeError\<close> unless its input is a string. \<open>validator.isEmpty\<close> then tests the
  length against zero (its default options do not ignore whitespace).
\<close>

fun assertString :: "jsval \<Rightarrow> exn + jsstring" where
  "assertString (JString s) = Inr s"
| "assertString _ = Inl TypeError"

definition validator_isEmpty :: "jsval \<Rightarrow> exn + bool" where
  "validator_isEmpty v = (case assertString v of Inl e \<Rightarrow> Inl e | Inr s \<Rightarrow> Inr (length s = 0))"

text \<open>
  The format checks \<open>validator.isIP\<close> and \<open>validator.isEmail\<close> are not part of the
  repository: their verdicts on strings are parameters of the model.
\<close>

record validator =
  isIP :: "jsstring \<Rightarrow> bool"
  isEmail :: "jsstring \<Rightarrow> bool"

definition validator_isIP :: "validator \<Rightarrow> jsval \<Rightarrow> exn + bool" where
  "validator_isIP V v = (case assertString v of Inl e \<Rightarrow> Inl e | Inr s \<Rightarrow> Inr (isIP V s))"

definition validator_isEmail :: "validator \<Rightarrow> jsval \<Rightarrow> exn + bool" where
  "validator_isEmail V v = (case assertString v of Inl e \<Rightarrow> Inl e | Inr s \<Rightarrow> Inr (isEmail V s))"

text \<open>
  The network is the list of URLs requested so far. The transport \<open>T\<close> gives what the
  promise of \<open>axios.get(url)\<close> settles with (a response or a rejection), which may
  depend on the earlier requests. A method's result is either the synthetic object
  \<open>{data: {error: msg}}\<close> or that settlement, passed through by \<open>return await\<close>.
\<close>

type_synonym network = "jsstring list"

type_synonym 'r transport = "network \<Rightarrow> jsstring \<Rightarrow> 'r"

datatype 'r result = Synthetic jsstring | Transport 'r

definition axios_get :: "'r transport \<Rightarrow> jsstring \<Rightarrow> network \<Rightarrow> (exn + 'r result) \<times> network" where
  "axios_get T url net = (Inr (Transport (T net url)), net @ [url])"

section \<open>index.js\<close>

fun blank_string :: "jsval \<Rightarrow> bool" where
  "blank_string (JString s) = (length (trim s) = 0)"
| "blank_string _ = False"

definition isEmpty :: "jsval \<Rightarrow> exn + bool" where
  "isEmpty v =
     (if v = JUndefined \<or> v = JNull \<or> blank_string v then Inr True
      else case validator_isEmpty v of
             Inl e \<Rightarrow> Inl e
           | Inr b \<Rightarrow> (if b then Inr True else Inr False))"

record WebResolver =
  baseURL :: jsstring

type_synonym console = "jsstring list"

definition WebResolver_constructor :: "jsval \<Rightarrow> console \<Rightarrow> (exn + WebResolver) \<times> console" where
  "WebResolver_constructor key con =
     (case isEmpty key of
        Inl e \<Rightarrow> (Inl e, con)
      | Inr b \<Rightarrow>
          (Inr \<lparr>baseURL = str ''https://webresolver.nl/api.php?key='' @ ToString key\<rparr>,
           if b then con @ [str ''Get your API key here: https://webresolver.nl/api/plans'']
           else con))"

definition skypeResolve ::
  "'r transport \<Rightarrow> WebResolver \<Rightarrow> jsval \<Rightarrow> network \<Rightarrow> (exn + 'r result) \<times> network" where
  "skypeResolve T this username net =
     (case isEmpty username of
        Inl e \<Rightarrow> (Inl e, net)
      | Inr True \<Rightarrow> (Inr (Synthetic (str ''Please enter a Skype username!'')), net)
      | Inr False \<Rightarrow>
          axios_get T (baseURL this @ str ''&json&action=resolve&string='' @ ToString username) net)"

definition resolveDb ::
  "'r transport \<Rightarrow> WebResolver \<Rightarrow> jsval \<Rightarrow> network \<Rightarrow> (exn + 'r result) \<times> network" where
  "resolveDb T this username net =
     (case isEmpty username of
        Inl e \<Rightarrow> (Inl e, net)
      | Inr True \<Rightarrow> (Inr (Synthetic (str ''Please enter a Skype username!'')), net)
      | Inr False \<Rightarrow>
          axios_get T (baseURL this @ str ''&json&action=resolvedb&string='' @ ToString username) net)"

definition ip2skype ::
  "validator \<Rightarrow> 'r transport \<Rightarrow> WebResolver \<Rightarrow> jsval \<Rightarrow> network \<Rightarrow> (exn + 'r result) \<times> network" where
  "ip2skype V T this ip net =
     (case isEmpty ip of
        Inl e \<Rightarrow> (Inl e, net)
      | Inr True \<Rightarrow> (Inr (Synthetic (str ''Please enter a valid IP address!'')), net)
      | Inr False \<Rightarrow>
          (case validator_isIP V ip of
             Inl e \<Rightarrow> (Inl e, net)
           | Inr True \<Rightarrow>
               axios_get T (baseURL this @ str ''&json&action=ip2skype&string='' @ ToString ip) net
           | Inr False \<Rightarrow> (Inr (Synthetic (str ''Please enter a valid IP address!'')), net)))"

definition email2skype ::
  "validator \<Rightarrow> 'r transport \<Rightarrow> WebResolver \<Rightarrow> jsval \<Rightarrow> network \<Rightarrow> (exn + 'r result) \<times> network" where
  "email2skype V T this email net =
     (case isEmpty email of
        Inl e \<Rightarrow> (Inl e, net)
      | Inr True \<Rightarrow> (Inr (Synthetic (str ''Please enter a valid email address!'')), net)
      | Inr False \<Rightarrow>
          (case validator_isEmail V email of
             Inl e \<Rightarrow> (Inl e, net)
           | Inr True \<Rightarrow>
               axios_get T (baseURL this @ str ''&json&action=email2skype&string='' @ ToString email) net
           | Inr False \<Rightarrow> (Inr (Synthetic (str ''Please enter a valid email address!'')), net)))"

definition skype2email ::
  "'r transport \<Rightarrow> WebResolver \<Rightarrow> jsval \<Rightarrow> network \<Rightarrow> (exn + 'r result) \<times> network" where
  "skype2email T this username net =
     (case isEmpty username of
        Inl e \<Rightarrow> (Inl e, net)
      | Inr True \<Rightarrow> (Inr (Synthetic (str ''Please enter a Skype username!'')), net)
      | Inr False \<Rightarrow>
          axios_get T (baseURL this @ str ''&json&action=skype2email&string='' @ ToString username) net)"

definition geoIp ::
  "'r transport \<Rightarrow> WebResolver \<Rightarrow> jsval \<Rightarrow> network \<Rightarrow> (exn + 'r result) \<times> network" where
  "geoIp T this domain net =
     (case isEmpty domain of
        Inl e \<Rightarrow> (Inl e, net)
      | Inr True \<Rightarrow> (Inr (Synthetic (str ''Please enter a domain, IPv4 or IPv6 address!'')), net)
      | Inr False \<Rightarrow>
          axios_get T (baseURL this @ str ''&json&action=geoip&string='' @ ToString domain) net)"

definition dns ::
  "'r transport \<Rightarrow> WebResolver \<Rightarrow> jsval \<Rightarrow> network \<Rightarrow> (exn + 'r result) \<times> network" where
  "dns T this domain net =
     (case isEmpty domain of
        Inl e \<Rightarrow> (Inl e, net)
      | Inr True \<Rightarrow> (Inr (Synthetic (str ''Please enter a domain!'')), net)
      | Inr False \<Rightarrow>
          axios_get T (baseURL this @ str ''&json&action=dns&string='' @ ToString domain) net)"

definition cloudflare ::
  "'r transport \<Rightarrow> WebResolver \<Rightarrow> jsval \<Rightarrow> network \<Rightarrow> (exn + 'r result) \<times> network" where
  "cloudflare T this domain net =
     (case isEmpty domain of
        Inl e \<Rightarrow> (Inl e, net)
      | Inr True \<Rightarrow> (Inr (Synthetic (str ''Please enter a domain!'')), net)
      | Inr False \<Rightarrow>
          axios_get T (baseURL this @ str ''&json&action=cloudflare&string='' @ ToString domain) net)"

definition phone ::
  "'r transport \<Rightarrow> WebResolver \<Rightarrow> jsval \<Rightarrow> network \<Rightarrow> (exn + 'r result) \<times> network" where
  "phone T this phonenumber net =
     (case isEmpty phonenumber of
        Inl e \<Rightarrow> (Inl e, net)
      | Inr True \<Rightarrow>
          (Inr (Synthetic (str ''Please enter a phone number! (Use international phone format)'')), net)
      | Inr False \<Rightarrow>
          axios_get T (baseURL this @ str ''&json&action=phonenumbercheck&string='' @ ToString phonenumber) net)"

definition screenshot ::
  "'r transport \<Rightarrow> WebResolver \<Rightarrow> jsval \<Rightarrow> network \<Rightarrow> (exn + 'r result) \<times> network" where
  "screenshot T this url net =
     (case isEmpty url of
        Inl e \<Rightarrow> (Inl e, net)
      | Inr True \<Rightarrow> (Inr (Synthetic (str ''Please enter a url!'')), net)
      | Inr False \<Rightarrow>
          axios_get T (baseURL this @ str ''&json&action=screenshot&string='' @ ToString url) net)"

definition headers ::
  "'r transport \<Rightarrow> WebResolver \<Rightarrow> jsval \<Rightarrow> network \<Rightarrow> (exn + 'r result) \<times> network" where
  "headers T this domain net =
     (case isEmpty domain of
        Inl e \<Rightarrow> (Inl e, net)
      | Inr True \<Rightarrow> (Inr (Synthetic (str ''Please enter a domain!'')), net)
      | Inr False \<Rightarrow>
          axios_get T (baseURL this @ str ''&html=0&action=header&string='' @ ToString domain) net)"

definition whois ::
  "'r transport \<Rightarrow> WebResolver \<Rightarrow> jsval \<Rightarrow> network \<Rightarrow> (exn + 'r result) \<times> network" where
  "whois T this url net =
     (case isEmpty url of
        Inl e \<Rightarrow> (Inl e, net)
      | Inr True \<Rightarrow> (Inr (Synthetic (str ''Please enter a url!'')), net)
      | Inr False \<Rightarrow>
          axios_get T (baseURL this @ str ''&html=0&action=whois&string='' @ ToString url) net)"

definition ping ::
  "'r transport \<Rightarrow> WebResolver \<Rightarrow> jsval \<Rightarrow> network \<Rightarrow> (exn + 'r result) \<times> network" where
  "ping T this url net =
     (case isEmpty url of
        Inl e \<Rightarrow> (Inl e, net)
      | Inr True \<Rightarrow> (Inr (Synthetic (str ''Please enter a url!'')), net)
      | Inr False \<Rightarrow>
          axios_get T (baseURL this @ str ''&html=0&action=ping&string='' @ ToString url) net)"

text \<open>\<open>portscan(url, port=null)\<close>: the default replaces a missing (undefined) port.\<close>

definition portscan ::
  "'r transport \<Rightarrow> WebResolver \<Rightarrow> jsval \<Rightarrow> jsval \<Rightarrow> network \<Rightarrow> (exn + 'r result) \<times> network" where
  "portscan T this url port_arg net =
     (let port = (if port_arg = JUndefined then JNull else port_arg) in
      case isEmpty url of
        Inl e \<Rightarrow> (Inl e, net)
      | Inr True \<Rightarrow> (Inr (Synthetic (str ''Please enter a url!'')), net)
      | Inr False \<Rightarrow>
          (if port = JNull
           then axios_get T (baseURL this @ str ''&json&action=portscan&string='' @ ToString url) net
           else axios_get T (baseURL this @ str ''&json&action=portscan&string='' @ ToString url
                               @ str ''&port='' @ ToString port) net))"

text \<open>\<open>iplogger(logger="", id="")\<close>.\<close>

definition iplogger ::
  "'r transport \<Rightarrow> WebResolver \<Rightarrow> jsval \<Rightarrow> jsval \<Rightarrow> network \<Rightarrow> (exn + 'r result) \<times> network" where
  "iplogger T this logger_arg id_arg net =
     (let logger = (if logger_arg = JUndefined then JString (str '''') else logger_arg);
          ident = (if id_arg = JUndefined then JString (str '''') else id_arg) in
      axios_get T (baseURL this @ str ''&json&action=iplogger&string='' @ ToString ident
                     @ str ''&logger='' @ ToString logger) net)"

definition isTempEmail ::
  "validator \<Rightarrow> 'r transport \<Rightarrow> WebResolver \<Rightarrow> jsval \<Rightarrow> network \<Rightarrow> (exn + 'r result) \<times> network" where
  "isTempEmail V T this email net =
     (case isEmpty email of
        Inl e \<Rightarrow> (Inl e, net)
      | Inr True \<Rightarrow> (Inr (Synthetic (str ''Please enter a valid email address!'')), net)
      | Inr False \<Rightarrow>
          (case validator_isEmail V email of
             Inl e \<Rightarrow> (Inl e, net)
           | Inr True \<Rightarrow>
               axios_get T (baseURL this @ str ''&json&action=disposable_email&string='' @ ToString email) net
           | Inr False \<Rightarrow> (Inr (Synthetic (str ''Please enter a valid email address!'')), net)))"

definition ip2websites ::
  "validator \<Rightarrow> 'r transport \<Rightarrow> WebResolver \<Rightarrow> jsval \<Rightarrow> network \<Rightarrow> (exn + 'r result) \<times> network" where
  "ip2websites V T this ip net =
     (case isEmpty ip of
        Inl e \<Rightarrow> (Inl e, net)
      | Inr True \<Rightarrow> (Inr (Synthetic (str ''Please enter a valid IP address!'')), net)
      | Inr False \<Rightarrow>
          (case validator_isIP V ip of
             Inl e \<Rightarrow> (Inl e, net)
           | Inr True \<Rightarrow>
               axios_get T (baseURL this @ str ''&json&action=ip2websites&string='' @ ToString ip) net
           | Inr False \<Rightarrow> (Inr (Synthetic (str ''Please enter a valid IP address!'')), net)))"

definition domainInfo ::
  "'r transport \<Rightarrow> WebResolver \<Rightarrow> jsval \<Rightarrow> network \<Rightarrow> (exn + 'r result) \<times> network" where
  "domainInfo T this domain net =
     (case isEmpty domain of
        Inl e \<Rightarrow> (Inl e, net)
      | Inr True \<Rightarrow> (Inr (Synthetic (str ''Please enter a domain!'')), net)
      | Inr False \<Rightarrow>
          axios_get T (baseURL this @ str ''&json&action=domaininfo&string='' @ ToString domain) net)"

subsection \<open>Calling a method by name\<close>

text \<open>The public methods of the class, and a call with (up to) two positional
  arguments; a method with one parameter ignores the second.\<close>

datatype operation =
    SkypeResolve | ResolveDb | Ip2skype | Email2skype | Skype2email | GeoIp | Dns
  | Cloudflare | Phone | Screenshot | Headers | Whois | Ping | Portscan | Iplogger
  | IsTempEmail | Ip2websites | DomainInfo

fun invoke ::
  "operation \<Rightarrow> validator \<Rightarrow> 'r transport \<Rightarrow> WebResolver \<Rightarrow> jsval \<Rightarrow> jsval \<Rightarrow> network
     \<Rightarrow> (exn + 'r result) \<times> network" where
  "invoke SkypeResolve V T this a b net = skypeResolve T this a net"
| "invoke ResolveDb V T this a b net = resolveDb T this a net"
| "invoke Ip2skype V T this a b net = ip2skype V T this a net"
| "invoke Email2skype V T this a b net = email2skype V T this a net"
| "invoke Skype2email V T this a b net = skype2email T this a net"
| "invoke GeoIp V T this a b net = geoIp T this a net"
| "invoke Dns V T this a b net = dns T this a net"
| "invoke Cloudflare V T this a b net = cloudflare T this a net"
| "invoke Phone V T this a b net = phone T this a net"
| "invoke Screenshot V T this a b net = screenshot T this a net"
| "invoke Headers V T this a b net = headers T this a net"
| "invoke Whois V T this a b net = whois T this a net"
| "invoke Ping V T this a b net = ping T this a net"
| "invoke Portscan V T this a b net = portscan T this a b net"
| "invoke Iplogger V T this a b net = iplogger T this a b net"
| "invoke IsTempEmail V T this a b net = isTempEmail V T this a net"
| "invoke Ip2websites V T this a b net = ip2websites V T this a net"
| "invoke DomainInfo V T this a b net = domainInfo T this a net"

section \<open>Reading a request URL\<close>

text \<open>
  What the receiving server sees in a URL: the query string runs from the first \<open>?\<close> to
  the fragment mark \<open>#\<close>, its parameters are separated by \<open>&\<close>, and a parameter's name
  ends at its first \<open>=\<close>. (Code units: \<open>#\<close> 35, \<open>&\<close> 38, \<open>=\<close> 61, \<open>?\<close> 63.)
\<close>

fun split_on :: "'a \<Rightarrow> 'a list \<Rightarrow> 'a list list" where
  "split_on d [] = [[]]"
| "split_on d (x # xs) =
     (if x = d then [] # split_on d xs
      else (case split_on d xs of [] \<Rightarrow> [[x]] | p # ps \<Rightarrow> (x # p) # ps))"

definition query_string :: "jsstring \<Rightarrow> jsstring" where
  "query_string url = drop 1 (dropWhile (\<lambda>c. c \<noteq> 63) (takeWhile (\<lambda>c. c \<noteq> 35) url))"

definition parse_param :: "jsstring \<Rightarrow> jsstring \<times> jsstring" where
  "parse_param p = (takeWhile (\<lambda>c. c \<noteq> 61) p, drop 1 (dropWhile (\<lambda>c. c \<noteq> 61) p))"

definition query_params :: "jsstring \<Rightarrow> (jsstring \<times> jsstring) list" where
  "query_params url = map parse_param (split_on 38 (query_string url))"

definition param_values :: "jsstring \<Rightarrow> jsstring \<Rightarrow> jsstring list" where
  "param_values name url = map snd (filter (\<lambda>p. fst p = name) (query_params url))"

text \<open>A string without \<open>&\<close> cannot end a parameter, one without \<open>#\<close> cannot end the
  query; a clean string can do neither.\<close>

definition amp_free :: "jsstring \<Rightarrow> bool" where
  "amp_free s = list_all (\<lambda>c. c \<noteq> 38) s"

definition hash_free :: "jsstring \<Rightarrow> bool" where
  "hash_free s = list_all (\<lambda>c. c \<noteq> 35) s"

definition clean :: "jsstring \<Rightarrow> bool" where
  "clean s = (amp_free s \<and> hash_free s)"

section \<open>Concrete instances\<close>

text \<open>
  The theorems below hold for every validator and every transport. To run the model on
  concrete inputs, \<open>demo_validator\<close> fixes one validator: it accepts dotted-quad IPv4
  addresses with fields up to 255, and addresses of the form \<open>local@host.tld\<close> without
  whitespace. \<open>echo_transport\<close> answers every request with its URL, and \<open>demo_client\<close>
  is the client constructed with the key \<open>KEY\<close>.
\<close>

definition decimal_digit :: "16 word \<Rightarrow> bool" where
  "decimal_digit c = (48 \<le> c \<and> c \<le> 57)"

definition decimal_value :: "jsstring \<Rightarrow> nat" where
  "decimal_value s = foldl (\<lambda>n c. 10 * n + unat (c - 48)) 0 s"

definition dotted_quad_octet :: "jsstring \<Rightarrow> bool" where
  "dotted_quad_octet p =
     (1 \<le> length p \<and> length p \<le> 3 \<and> list_all decimal_digit p \<and> decimal_value p \<le> 255)"

definition dotted_quad :: "jsstring \<Rightarrow> bool" where
  "dotted_quad s = (length (split_on 46 s) = 4 \<and> list_all dotted_quad_octet (split_on 46 s))"

definition mailbox_at_host :: "jsstring \<Rightarrow> bool" where
  "mailbox_at_host s =
     (case split_on 64 s of
        [l, h] \<Rightarrow> l \<noteq> [] \<and> list_all (\<lambda>c. \<not> trimmable c) s
                   \<and> 2 \<le> length (split_on 46 h) \<and> list_all (\<lambda>p. p \<noteq> []) (split_on 46 h)
      | _ \<Rightarrow> False)"

definition demo_validator :: validator where
  "demo_validator = \<lparr>isIP = dotted_quad, isEmail = mailbox_at_host\<rparr>"

definition echo_transport :: "jsstring transport" where
  "echo_transport net url = url"

definition demo_client :: WebResolver where
  "demo_client = \<lparr>baseURL = str ''https://webresolver.nl/api.php?key=KEY''\<rparr>"

section \<open>Auxiliary facts\<close>

declare digits.simps [simp del]

lemmas ws_simps = trimmable_def WhiteSpace_def LineTerminator_def

lemmas demo_simps = demo_validator_def dotted_quad_def dotted_quad_octet_def decimal_digit_def
  decimal_value_def mailbox_at_host_def echo_transport_def demo_client_def

lemmas method_defs = skypeResolve_def resolveDb_def ip2skype_def email2skype_def skype2email_def
  geoIp_def dns_def cloudflare_def phone_def screenshot_def headers_def whois_def ping_def
  portscan_def iplogger_def isTempEmail_def ip2websites_def domainInfo_def

subsection \<open>Blank strings and \<open>isEmpty\<close>\<close>

lemma trim_Nil_iff: "trim s = [] \<longleftrightarrow> list_all trimmable s"
proof
  assume "trim s = []"
  then have a: "\<forall>x\<in>set (dropWhile trimmable s). trimmable x"
    by (simp add: trim_def)
  show "list_all trimmable s"
  proof (rule ccontr)
    assume "\<not> list_all trimmable s"
    then have ne: "dropWhile trimmable s \<noteq> []"
      by (simp add: list_all_iff)
    then have "\<not> trimmable (hd (dropWhile trimmable s))" by (rule hd_dropWhile)
    moreover have "hd (dropWhile trimmable s) \<in> set (dropWhile trimmable s)"
      using ne by simp
    ultimately show False using a by blast
  qed
next
  assume "list_all trimmable s"
  then have d: "dropWhile trimmable s = []"
    by (simp add: list_all_iff)
  show "trim s = []" unfolding trim_def d by simp
qed

lemma isEmpty_undefined: "isEmpty JUndefined = Inr True"
  by (simp add: isEmpty_def)

lemma isEmpty_null: "isEmpty JNull = Inr True"
  by (simp add: isEmpty_def)

lemma isEmpty_blank: "list_all trimmable s \<Longrightarrow> isEmpty (JString s) = Inr True"
  by (simp add: isEmpty_def trim_Nil_iff)

lemma isEmpty_nonblank: "\<not> list_all trimmable s \<Longrightarrow> isEmpty (JString s) = Inr False"
  by (auto simp add: isEmpty_def trim_Nil_iff validator_isEmpty_def)

lemma isEmpty_number: "isEmpty (JNumber n) = Inl TypeError"
  by (simp add: isEmpty_def validator_isEmpty_def)

lemma isEmpty_boolean: "isEmpty (JBoolean b) = Inl TypeError"
  by (simp add: isEmpty_def validator_isEmpty_def)

lemma isEmpty_blank_value:
  "v = JUndefined \<or> v = JNull \<or> v = JString s \<and> list_all trimmable s \<Longrightarrow> isEmpty v = Inr True"
  by (auto simp: isEmpty_undefined isEmpty_null isEmpty_blank)

lemma blank_clean: "list_all trimmable k \<Longrightarrow> amp_free k \<and> hash_free k"
  by (induction k) (auto simp: amp_free_def hash_free_def ws_simps)

subsection \<open>Query parameters of a URL built from parts\<close>

lemma takeWhile_hash_append:
  "takeWhile (\<lambda>c. c \<noteq> 35) (u @ ys)
     = (if hash_free u then u @ takeWhile (\<lambda>c. c \<noteq> 35) ys else takeWhile (\<lambda>c. c \<noteq> 35) u)"
proof (cases "hash_free u")
  case True
  then have "takeWhile (\<lambda>c. c \<noteq> 35) (u @ ys) = u @ takeWhile (\<lambda>c. c \<noteq> 35) ys"
    by (intro takeWhile_append2) (simp add: hash_free_def list_all_iff)
  with True show ?thesis by simp
next
  case False
  then obtain x where "x \<in> set u" "\<not> x \<noteq> 35"
    by (auto simp: hash_free_def list_all_iff)
  then have "takeWhile (\<lambda>c. c \<noteq> 35) (u @ ys) = takeWhile (\<lambda>c. c \<noteq> 35) u"
    by (rule takeWhile_append1)
  with False show ?thesis by simp
qed

lemma hash_free_takeWhile: "hash_free u \<Longrightarrow> takeWhile (\<lambda>c. c \<noteq> 35) u = u"
  by (simp add: hash_free_def list_all_iff)

lemma amp_free_takeWhile: "amp_free u \<Longrightarrow> amp_free (takeWhile P u)"
  by (auto simp: amp_free_def list_all_iff dest: set_takeWhileD)

lemma amp_free_split: "amp_free k \<Longrightarrow> split_on 38 (k @ 38 # ys) = k # split_on 38 ys"
  by (induction k) (simp_all add: amp_free_def)

lemma amp_free_split_end: "amp_free k \<Longrightarrow> split_on 38 k = [k]"
  by (induction k) (simp_all add: amp_free_def)

lemmas url_simps = param_values_def query_params_def query_string_def parse_param_def str_def
  takeWhile_hash_append hash_free_takeWhile amp_free_takeWhile amp_free_split amp_free_split_end

section \<open>Blank input\<close>

text \<open>
  Claim C1. Every method with a primary string argument (all but \<open>iplogger\<close>), called
  with \<open>undefined\<close>, \<open>null\<close>, the empty string or a string of whitespace only, returns
  the object \<open>{data: {error: prompt}}\<close> with the prompt of its field, and the network is
  left as it was: no request is made.
\<close>

theorem blank_input_local_error:
  assumes "v = JUndefined \<or> v = JNull \<or> v = JString s \<and> list_all trimmable s"
  shows "skypeResolve T c v net = (Inr (Synthetic (str ''Please enter a Skype username!'')), net)
    \<and> resolveDb T c v net = (Inr (Synthetic (str ''Please enter a Skype username!'')), net)
    \<and> ip2skype V T c v net = (Inr (Synthetic (str ''Please enter a valid IP address!'')), net)
    \<and> email2skype V T c v net = (Inr (Synthetic (str ''Please enter a valid email address!'')), net)
    \<and> skype2email T c v net = (Inr (Synthetic (str ''Please enter a Skype username!'')), net)
    \<and> geoIp T c v net = (Inr (Synthetic (str ''Please enter a domain, IPv4 or IPv6 address!'')), net)
    \<and> dns T c v net = (Inr (Synthetic (str ''Please enter a domain!'')), net)
    \<and> cloudflare T c v net = (Inr (Synthetic (str ''Please enter a domain!'')), net)
    \<and> phone T c v net
        = (Inr (Synthetic (str ''Please enter a phone number! (Use international phone format)'')), net)
    \<and> screenshot T c v net = (Inr (Synthetic (str ''Please enter a url!'')), net)
    \<and> headers T c v net = (Inr (Synthetic (str ''Please enter a domain!'')), net)
    \<and> whois T c v net = (Inr (Synthetic (str ''Please enter a url!'')), net)
    \<and> ping T c v net = (Inr (Synthetic (str ''Please enter a url!'')), net)
    \<and> portscan T c v port net = (Inr (Synthetic (str ''Please enter a url!'')), net)
    \<and> isTempEmail V T c v net = (Inr (Synthetic (str ''Please enter a valid email address!'')), net)
    \<and> ip2websites V T c v net = (Inr (Synthetic (str ''Please enter a valid IP address!'')), net)
    \<and> domainInfo T c v net = (Inr (Synthetic (str ''Please enter a domain!'')), net)"
proof -
  have e: "isEmpty v = Inr True" using assms by (rule isEmpty_blank_value)
  show ?thesis unfolding method_defs e by simp
qed

text \<open>The theorem at the whitespace-only string of a space, a tab and a line feed.\<close>

theorem blank_input_local_error_witness:
  "list_all trimmable [32, 9, 10]
   \<and> skypeResolve echo_transport demo_client (JString [32, 9, 10]) []
       = (Inr (Synthetic (str ''Please enter a Skype username!'')), [])
   \<and> ip2skype demo_validator echo_transport demo_client (JString [32, 9, 10]) []
       = (Inr (Synthetic (str ''Please enter a valid IP address!'')), [])
   \<and> portscan echo_transport demo_client (JString [32, 9, 10]) (JNumber 80) []
       = (Inr (Synthetic (str ''Please enter a url!'')), [])"
proof -
  have w: "list_all trimmable [32, 9, 10]"
    by (simp add: ws_simps)
  then have h: "JString [32, 9, 10] = JUndefined \<or> JString [32, 9, 10] = JNull
      \<or> JString [32, 9, 10] = JString [32, 9, 10] \<and> list_all trimmable [32, 9, 10]"
    by simp
  show ?thesis
    using w blank_input_local_error [OF h, where T = echo_transport and c = demo_client
        and V = demo_validator and port = "JNumber 80" and net = "[]"]
    by simp
qed

section \<open>Input that is not a string\<close>

text \<open>
  Claim C9. There are non-empty inputs that are not strings, the numbers for instance,
  on which \<open>isEmpty\<close> throws (the \<open>TypeError\<close> of \<open>validator.isEmpty\<close>) instead of
  answering, and so does every validated method: it neither returns a local error object
  nor issues a request.
\<close>

theorem number_input_throws:
  "isEmpty (JNumber n) = Inl TypeError
    \<and> skypeResolve T c (JNumber n) net = (Inl TypeError, net)
    \<and> resolveDb T c (JNumber n) net = (Inl TypeError, net)
    \<and> ip2skype V T c (JNumber n) net = (Inl TypeError, net)
    \<and> email2skype V T c (JNumber n) net = (Inl TypeError, net)
    \<and> skype2email T c (JNumber n) net = (Inl TypeError, net)
    \<and> geoIp T c (JNumber n) net = (Inl TypeError, net)
    \<and> dns T c (JNumber n) net = (Inl TypeError, net)
    \<and> cloudflare T c (JNumber n) net = (Inl TypeError, net)
    \<and> phone T c (JNumber n) net = (Inl TypeError, net)
    \<and> screenshot T c (JNumber n) net = (Inl TypeError, net)
    \<and> headers T c (JNumber n) net = (Inl TypeError, net)
    \<and> whois T c (JNumber n) net = (Inl TypeError, net)
    \<and> ping T c (JNumber n) net = (Inl TypeError, net)
    \<and> portscan T c (JNumber n) port net = (Inl TypeError, net)
    \<and> isTempEmail V T c (JNumber n) net = (Inl TypeError, net)
    \<and> ip2websites V T c (JNumber n) net = (Inl TypeError, net)
    \<and> domainInfo T c (JNumber n) net = (Inl TypeError, net)"
  unfolding method_defs isEmpty_number by simp

text \<open>The theorem at the number 5.\<close>

theorem number_input_throws_witness:
  "isEmpty (JNumber 5) = Inl TypeError
   \<and> skypeResolve echo_transport demo_client (JNumber 5) [] = (Inl TypeError, [])
   \<and> ip2websites demo_validator echo_transport demo_client (JNumber 5) [] = (Inl TypeError, [])"
  using number_input_throws [where n = 5 and T = echo_transport and c = demo_client
      and V = demo_validator and net = "[]"]
  by simp

section \<open>The request URL\<close>

text \<open>
  Claim C7. A validated method whose primary input is a non-blank string (and passes the
  IP or email check where the method has one) requests the base URL followed by \<open>&json\<close>
  followed by \<open>&action=<code>&string=<primary>\<close>, where \<open>headers\<close>, \<open>whois\<close> and
  \<open>ping\<close> have \<open>&html=0\<close> in the place of \<open>&json\<close> (with a port, \<open>portscan\<close> goes on
  with \<open>&port=\<close> and the port as text: its decimal digits when it is a safe integer).
  The method's result is what the transport gave for that request, unmodified.
\<close>

theorem request_url_format:
  assumes "\<not> list_all trimmable s"
  shows "axios_get T url net = (Inr (Transport (T net url)), net @ [url])
    \<and> skypeResolve T c (JString s) net
        = axios_get T (baseURL c @ str ''&json'' @ str ''&action=resolve&string='' @ s) net
    \<and> resolveDb T c (JString s) net
        = axios_get T (baseURL c @ str ''&json'' @ str ''&action=resolvedb&string='' @ s) net
    \<and> (isIP V s \<longrightarrow> ip2skype V T c (JString s) net
        = axios_get T (baseURL c @ str ''&json'' @ str ''&action=ip2skype&string='' @ s) net)
    \<and> (isEmail V s \<longrightarrow> email2skype V T c (JString s) net
        = axios_get T (baseURL c @ str ''&json'' @ str ''&action=email2skype&string='' @ s) net)
    \<and> skype2email T c (JString s) net
        = axios_get T (baseURL c @ str ''&json'' @ str ''&action=skype2email&string='' @ s) net
    \<and> geoIp T c (JString s) net
        = axios_get T (baseURL c @ str ''&json'' @ str ''&action=geoip&string='' @ s) net
    \<and> dns T c (JString s) net
        = axios_get T (baseURL c @ str ''&json'' @ str ''&action=dns&string='' @ s) net
    \<and> cloudflare T c (JString s) net
        = axios_get T (baseURL c @ str ''&json'' @ str ''&action=cloudflare&string='' @ s) net
    \<and> phone T c (JString s) net
        = axios_get T (baseURL c @ str ''&json'' @ str ''&action=phonenumbercheck&string='' @ s) net
    \<and> screenshot T c (JString s) net
        = axios_get T (baseURL c @ str ''&json'' @ str ''&action=screenshot&string='' @ s) net
    \<and> headers T c (JString s) net
        = axios_get T (baseURL c @ str ''&html=0'' @ str ''&action=header&string='' @ s) net
    \<and> whois T c (JString s) net
        = axios_get T (baseURL c @ str ''&html=0'' @ str ''&action=whois&string='' @ s) net
    \<and> ping T c (JString s) net
        = axios_get T (baseURL c @ str ''&html=0'' @ str ''&action=ping&string='' @ s) net
    \<and> (port = JUndefined \<or> port = JNull \<longrightarrow> portscan T c (JString s) port net
        = axios_get T (baseURL c @ str ''&json'' @ str ''&action=portscan&string='' @ s) net)
    \<and> (port \<noteq> JUndefined \<and> port \<noteq> JNull \<longrightarrow>
          (\<exists>tail. portscan T c (JString s) port net
              = axios_get T (baseURL c @ str ''&json'' @ str ''&action=portscan&string='' @ s
                               @ str ''&port='' @ tail) net
            \<and> (prints_exactly port \<longrightarrow> tail = ToString port)))
    \<and> (isEmail V s \<longrightarrow> isTempEmail V T c (JString s) net
        = axios_get T (baseURL c @ str ''&json'' @ str ''&action=disposable_email&string='' @ s) net)
    \<and> (isIP V s \<longrightarrow> ip2websites V T c (JString s) net
        = axios_get T (baseURL c @ str ''&json'' @ str ''&action=ip2websites&string='' @ s) net)
    \<and> domainInfo T c (JString s) net
        = axios_get T (baseURL c @ str ''&json'' @ str ''&action=domaininfo&string='' @ s) net"
proof -
  have e: "isEmpty (JString s) = Inr False" using assms by (rule isEmpty_nonblank)
  have p: "\<exists>tail. portscan T c (JString s) port net
              = axios_get T (baseURL c @ str ''&json'' @ str ''&action=portscan&string='' @ s
                               @ str ''&port='' @ tail) net
            \<and> (prints_exactly port \<longrightarrow> tail = ToString port)"
    if "port \<noteq> JUndefined" "port \<noteq> JNull"
  proof (intro exI conjI impI)
    show "portscan T c (JString s) port net
              = axios_get T (baseURL c @ str ''&json'' @ str ''&action=portscan&string='' @ s
                               @ str ''&port='' @ ToString port) net"
      unfolding portscan_def e using that by (simp add: str_def Let_def)
    show "ToString port = ToString port" ..
  qed
  have q: "portscan T c (JString s) port net
        = axios_get T (baseURL c @ str ''&json'' @ str ''&action=portscan&string='' @ s) net"
    if "port = JUndefined \<or> port = JNull"
    unfolding portscan_def e using that by (auto simp: str_def Let_def)
  have r: "skypeResolve T c (JString s) net
        = axios_get T (baseURL c @ str ''&json'' @ str ''&action=resolve&string='' @ s) net
    \<and> resolveDb T c (JString s) net
        = axios_get T (baseURL c @ str ''&json'' @ str ''&action=resolvedb&string='' @ s) net
    \<and> (isIP V s \<longrightarrow> ip2skype V T c (JString s) net
        = axios_get T (baseURL c @ str ''&json'' @ str ''&action=ip2skype&string='' @ s) net)
    \<and> (isEmail V s \<longrightarrow> email2skype V T c (JString s) net
        = axios_get T (baseURL c @ str ''&json'' @ str ''&action=email2skype&string='' @ s) net)
    \<and> skype2email T c (JString s) net
        = axios_get T (baseURL c @ str ''&json'' @ str ''&action=skype2email&string='' @ s) net
    \<and> geoIp T c (JString s) net
        = axios_get T (baseURL c @ str ''&json'' @ str ''&action=geoip&string='' @ s) net
    \<and> dns T c (JString s) net
        = axios_get T (baseURL c @ str ''&json'' @ str ''&action=dns&string='' @ s) net
    \<and> cloudflare T c (JString s) net
        = axios_get T (baseURL c @ str ''&json'' @ str ''&action=cloudflare&string='' @ s) net
    \<and> phone T c (JString s) net
        = axios_get T (baseURL c @ str ''&json'' @ str ''&action=phonenumbercheck&string='' @ s) net
    \<and> screenshot T c (JString s) net
        = axios_get T (baseURL c @ str ''&json'' @ str ''&action=screenshot&string='' @ s) net
    \<and> headers T c (JString s) net
        = axios_get T (baseURL c @ str ''&html=0'' @ str ''&action=header&string='' @ s) net
    \<and> whois T c (JString s) net
        = axios_get T (baseURL c @ str ''&html=0'' @ str ''&action=whois&string='' @ s) net
    \<and> ping T c (JString s) net
        = axios_get T (baseURL c @ str ''&html=0'' @ str ''&action=ping&string='' @ s) net
    \<and> (isEmail V s \<longrightarrow> isTempEmail V T c (JString s) net
        = axios_get T (baseURL c @ str ''&json'' @ str ''&action=disposable_email&string='' @ s) net)
    \<and> (isIP V s \<longrightarrow> ip2websites V T c (JString s) net
        = axios_get T (baseURL c @ str ''&json'' @ str ''&action=ip2websites&string='' @ s) net)
    \<and> domainInfo T c (JString s) net
        = axios_get T (baseURL c @ str ''&json'' @ str ''&action=domaininfo&string='' @ s) net"
    unfolding method_defs e
    by (simp add: validator_isIP_def validator_isEmail_def str_def)
  have a: "axios_get T url net = (Inr (Transport (T net url)), net @ [url])"
    by (simp add: axios_get_def)
  show ?thesis using a p q r by blast
qed

text \<open>The theorem at \<open>example.com\<close>, \<open>8.8.8.8\<close> and \<open>a@b.com\<close>, on the demo client.\<close>

theorem request_url_format_witness:
  "\<not> list_all trimmable (str ''example.com'')
   \<and> skypeResolve echo_transport demo_client (JString (str ''example.com'')) []
       = (Inr (Transport (str ''https://webresolver.nl/api.php?key=KEY&json&action=resolve&string=example.com'')),
          [str ''https://webresolver.nl/api.php?key=KEY&json&action=resolve&string=example.com''])
   \<and> whois echo_transport demo_client (JString (str ''example.com'')) []
       = (Inr (Transport (str ''https://webresolver.nl/api.php?key=KEY&html=0&action=whois&string=example.com'')),
          [str ''https://webresolver.nl/api.php?key=KEY&html=0&action=whois&string=example.com''])
   \<and> portscan echo_transport demo_client (JString (str ''example.com'')) JNull []
       = (Inr (Transport (str ''https://webresolver.nl/api.php?key=KEY&json&action=portscan&string=example.com'')),
          [str ''https://webresolver.nl/api.php?key=KEY&json&action=portscan&string=example.com''])
   \<and> portscan echo_transport demo_client (JString (str ''example.com'')) (JNumber 80) []
       = (Inr (Transport (str ''https://webresolver.nl/api.php?key=KEY&json&action=portscan&string=example.com&port=80'')),
          [str ''https://webresolver.nl/api.php?key=KEY&json&action=portscan&string=example.com&port=80''])
   \<and> \<not> list_all trimmable (str ''8.8.8.8'') \<and> isIP demo_validator (str ''8.8.8.8'')
   \<and> ip2websites demo_validator echo_transport demo_client (JString (str ''8.8.8.8'')) []
       = (Inr (Transport (str ''https://webresolver.nl/api.php?key=KEY&json&action=ip2websites&string=8.8.8.8'')),
          [str ''https://webresolver.nl/api.php?key=KEY&json&action=ip2websites&string=8.8.8.8''])
   \<and> \<not> list_all trimmable (str ''a@b.com'') \<and> isEmail demo_validator (str ''a@b.com'')
   \<and> isTempEmail demo_validator echo_transport demo_client (JString (str ''a@b.com'')) []
       = (Inr (Transport (str ''https://webresolver.nl/api.php?key=KEY&json&action=disposable_email&string=a@b.com'')),
          [str ''https://webresolver.nl/api.php?key=KEY&json&action=disposable_email&string=a@b.com''])"
proof -
  have h1: "\<not> list_all trimmable (str ''example.com'')" by (simp add: str_def ws_simps)
  have h2: "\<not> list_all trimmable (str ''8.8.8.8'')" by (simp add: str_def ws_simps)
  have h3: "\<not> list_all trimmable (str ''a@b.com'')" by (simp add: str_def ws_simps)
  have i2: "isIP demo_validator (str ''8.8.8.8'')" by (simp add: demo_simps str_def)
  have i3: "isEmail demo_validator (str ''a@b.com'')" by (simp add: demo_simps str_def ws_simps)
  have p: "Number_toString 80 = str ''80''"
    by (simp add: Number_toString_def digits.simps str_def)
  have u: "echo_transport n u = u" for n u by (simp add: echo_transport_def)
  have b: "baseURL demo_client = str ''https://webresolver.nl/api.php?key=KEY''"
    by (simp add: demo_client_def)
  note a = request_url_format [OF h1, where T = echo_transport and c = demo_client and net = "[]"
      and V = demo_validator and port = JNull]
  note a' = request_url_format [OF h1, where T = echo_transport and c = demo_client and net = "[]"
      and V = demo_validator and port = "JNumber 80"]
  note a2 = request_url_format [OF h2, where T = echo_transport and c = demo_client and net = "[]"
      and V = demo_validator and port = JNull]
  note a3 = request_url_format [OF h3, where T = echo_transport and c = demo_client and net = "[]"
      and V = demo_validator and port = JNull]
  have c1: "skypeResolve echo_transport demo_client (JString (str ''example.com'')) []
       = (Inr (Transport (str ''https://webresolver.nl/api.php?key=KEY&json&action=resolve&string=example.com'')),
          [str ''https://webresolver.nl/api.php?key=KEY&json&action=resolve&string=example.com''])"
    using a by (simp add: u b axios_get_def str_def)
  have c2: "whois echo_transport demo_client (JString (str ''example.com'')) []
       = (Inr (Transport (str ''https://webresolver.nl/api.php?key=KEY&html=0&action=whois&string=example.com'')),
          [str ''https://webresolver.nl/api.php?key=KEY&html=0&action=whois&string=example.com''])"
    using a by (simp add: u b axios_get_def str_def)
  have c3: "portscan echo_transport demo_client (JString (str ''example.com'')) JNull []
       = (Inr (Transport (str ''https://webresolver.nl/api.php?key=KEY&json&action=portscan&string=example.com'')),
          [str ''https://webresolver.nl/api.php?key=KEY&json&action=portscan&string=example.com''])"
    using a by (simp add: u b axios_get_def str_def)
  have c4: "portscan echo_transport demo_client (JString (str ''example.com'')) (JNumber 80) []
       = (Inr (Transport (str ''https://webresolver.nl/api.php?key=KEY&json&action=portscan&string=example.com&port=80'')),
          [str ''https://webresolver.nl/api.php?key=KEY&json&action=portscan&string=example.com&port=80''])"
    using a' by (auto simp: p u b axios_get_def str_def safe_integer_def)
  have c5: "ip2websites demo_validator echo_transport demo_client (JString (str ''8.8.8.8'')) []
       = (Inr (Transport (str ''https://webresolver.nl/api.php?key=KEY&json&action=ip2websites&string=8.8.8.8'')),
          [str ''https://webresolver.nl/api.php?key=KEY&json&action=ip2websites&string=8.8.8.8''])"
    using a2 i2 by (simp add: u b axios_get_def str_def)
  have c6: "isTempEmail demo_validator echo_transport demo_client (JString (str ''a@b.com'')) []
       = (Inr (Transport (str ''https://webresolver.nl/api.php?key=KEY&json&action=disposable_email&string=a@b.com'')),
          [str ''https://webresolver.nl/api.php?key=KEY&json&action=disposable_email&string=a@b.com''])"
    using a3 i3 by (simp add: u b axios_get_def str_def)
  show ?thesis
    by (intro conjI) (rule h1 c1 c2 c3 c4 h2 i2 c5 h3 i3 c6)+
qed


section \<open>Format checks\<close>

text \<open>
  Claim C5. Given a non-blank string that the validator does not accept as an IP address,
  \<open>ip2skype\<close> and \<open>ip2websites\<close> return the IP-format error object and make no request.
  Given one that it accepts, such as \<open>8.8.8.8\<close>, \<open>ip2skype\<close> issues a GET whose URL ends
  with \<open>&action=ip2skype&string=\<close> and the address.
\<close>

theorem ip_format_checked:
  assumes "\<not> list_all trimmable s"
  shows "(\<not> isIP V s \<longrightarrow>
            ip2skype V T c (JString s) net
              = (Inr (Synthetic (str ''Please enter a valid IP address!'')), net)
          \<and> ip2websites V T c (JString s) net
              = (Inr (Synthetic (str ''Please enter a valid IP address!'')), net))
    \<and> (isIP V s \<longrightarrow>
            ip2skype V T c (JString s) net
              = (Inr (Transport (T net (baseURL c @ str ''&json&action=ip2skype&string='' @ s))),
                 net @ [baseURL c @ str ''&json&action=ip2skype&string='' @ s])
          \<and> suffix (str ''&action=ip2skype&string='' @ s)
                (baseURL c @ str ''&json&action=ip2skype&string='' @ s))"
proof -
  have e: "isEmpty (JString s) = Inr False" using assms by (rule isEmpty_nonblank)
  have "baseURL c @ str ''&json&action=ip2skype&string='' @ s
          = (baseURL c @ str ''&json'') @ str ''&action=ip2skype&string='' @ s"
    by (simp add: str_def)
  then have x: "suffix (str ''&action=ip2skype&string='' @ s)
      (baseURL c @ str ''&json&action=ip2skype&string='' @ s)"
    by (rule suffixI)
  show ?thesis
    unfolding ip2skype_def ip2websites_def e
    using x by (simp add: validator_isIP_def axios_get_def)
qed

text \<open>The theorem at \<open>not-an-ip\<close>, \<open>999.999.999.999\<close> and \<open>8.8.8.8\<close>.\<close>

theorem ip_format_checked_witness:
  "\<not> list_all trimmable (str ''not-an-ip'') \<and> \<not> isIP demo_validator (str ''not-an-ip'')
   \<and> ip2skype demo_validator echo_transport demo_client (JString (str ''not-an-ip'')) []
        = (Inr (Synthetic (str ''Please enter a valid IP address!'')), [])
   \<and> \<not> list_all trimmable (str ''999.999.999.999'')
   \<and> \<not> isIP demo_validator (str ''999.999.999.999'')
   \<and> ip2websites demo_validator echo_transport demo_client (JString (str ''999.999.999.999'')) []
        = (Inr (Synthetic (str ''Please enter a valid IP address!'')), [])
   \<and> \<not> list_all trimmable (str ''8.8.8.8'') \<and> isIP demo_validator (str ''8.8.8.8'')
   \<and> ip2skype demo_validator echo_transport demo_client (JString (str ''8.8.8.8'')) []
        = (Inr (Transport (str ''https://webresolver.nl/api.php?key=KEY&json&action=ip2skype&string=8.8.8.8'')),
           [str ''https://webresolver.nl/api.php?key=KEY&json&action=ip2skype&string=8.8.8.8''])
   \<and> suffix (str ''&action=ip2skype&string=8.8.8.8'')
        (str ''https://webresolver.nl/api.php?key=KEY&json&action=ip2skype&string=8.8.8.8'')"
proof -
  have h1: "\<not> list_all trimmable (str ''not-an-ip'')" by (simp add: str_def ws_simps)
  have h2: "\<not> list_all trimmable (str ''999.999.999.999'')" by (simp add: str_def ws_simps)
  have h3: "\<not> list_all trimmable (str ''8.8.8.8'')" by (simp add: str_def ws_simps)
  have i1: "\<not> isIP demo_validator (str ''not-an-ip'')" by (simp add: demo_simps str_def)
  have i2: "\<not> isIP demo_validator (str ''999.999.999.999'')" by (simp add: demo_simps str_def)
  have i3: "isIP demo_validator (str ''8.8.8.8'')" by (simp add: demo_simps str_def)
  have u: "echo_transport n u = u" for n u by (simp add: echo_transport_def)
  have b: "baseURL demo_client = str ''https://webresolver.nl/api.php?key=KEY''"
    by (simp add: demo_client_def)
  note a1 = ip_format_checked [OF h1, where V = demo_validator and T = echo_transport
      and c = demo_client and net = "[]"]
  note a2 = ip_format_checked [OF h2, where V = demo_validator and T = echo_transport
      and c = demo_client and net = "[]"]
  note a3 = ip_format_checked [OF h3, where V = demo_validator and T = echo_transport
      and c = demo_client and net = "[]"]
  have c1: "ip2skype demo_validator echo_transport demo_client (JString (str ''not-an-ip'')) []
        = (Inr (Synthetic (str ''Please enter a valid IP address!'')), [])"
    using a1 i1 by simp
  have c2: "ip2websites demo_validator echo_transport demo_client (JString (str ''999.999.999.999'')) []
        = (Inr (Synthetic (str ''Please enter a valid IP address!'')), [])"
    using a2 i2 by simp
  have c3: "ip2skype demo_validator echo_transport demo_client (JString (str ''8.8.8.8'')) []
        = (Inr (Transport (str ''https://webresolver.nl/api.php?key=KEY&json&action=ip2skype&string=8.8.8.8'')),
           [str ''https://webresolver.nl/api.php?key=KEY&json&action=ip2skype&string=8.8.8.8''])"
    using a3 i3 by (simp add: u b str_def)
  have c4: "suffix (str ''&action=ip2skype&string=8.8.8.8'')
        (str ''https://webresolver.nl/api.php?key=KEY&json&action=ip2skype&string=8.8.8.8'')"
    using a3 i3 by (simp add: u b str_def)
  show ?thesis
    by (intro conjI) (rule h1 i1 c1 h2 i2 c2 h3 i3 c3 c4)+
qed

text \<open>
  Claim C3 as written names the action \<open>email2skython\<close>. The URL that \<open>email2skype\<close>
  requests for \<open>a@b.com\<close> does not contain \<open>&action=email2skython&string=a@b.com\<close>.
\<close>

theorem email2skype_action_counterexample:
  "email2skype demo_validator echo_transport demo_client (JString (str ''a@b.com'')) []
     = (Inr (Transport (str ''https://webresolver.nl/api.php?key=KEY&json&action=email2skype&string=a@b.com'')),
        [str ''https://webresolver.nl/api.php?key=KEY&json&action=email2skype&string=a@b.com''])
   \<and> \<not> sublist (str ''&action=email2skython&string=a@b.com'')
         (str ''https://webresolver.nl/api.php?key=KEY&json&action=email2skype&string=a@b.com'')"
  by (simp add: email2skype_def isEmpty_def validator_isEmpty_def validator_isEmail_def
      axios_get_def trim_def ws_simps demo_simps str_def sublist_code)

text \<open>
  Claim C3, amended. Given a non-blank string that the validator does not accept as an
  email address, \<open>email2skype\<close> and \<open>isTempEmail\<close> return the email-format error object
  and make no request. Given one that it accepts, such as \<open>a@b.com\<close>, \<open>email2skype\<close>
  issues a GET whose URL contains \<open>&action=email2skype&string=\<close> followed by the address.
\<close>

theorem email_format_checked:
  assumes "\<not> list_all trimmable s"
  shows "(\<not> isEmail V s \<longrightarrow>
            email2skype V T c (JString s) net
              = (Inr (Synthetic (str ''Please enter a valid email address!'')), net)
          \<and> isTempEmail V T c (JString s) net
              = (Inr (Synthetic (str ''Please enter a valid email address!'')), net))
    \<and> (isEmail V s \<longrightarrow>
            email2skype V T c (JString s) net
              = (Inr (Transport (T net (baseURL c @ str ''&json&action=email2skype&string='' @ s))),
                 net @ [baseURL c @ str ''&json&action=email2skype&string='' @ s])
          \<and> sublist (str ''&action=email2skype&string='' @ s)
                (baseURL c @ str ''&json&action=email2skype&string='' @ s))"
proof -
  have e: "isEmpty (JString s) = Inr False" using assms by (rule isEmpty_nonblank)
  have "baseURL c @ str ''&json&action=email2skype&string='' @ s
          = (baseURL c @ str ''&json'') @ (str ''&action=email2skype&string='' @ s) @ []"
    by (simp add: str_def)
  then have x: "sublist (str ''&action=email2skype&string='' @ s)
      (baseURL c @ str ''&json&action=email2skype&string='' @ s)"
    by (simp only: sublist_appendI)
  show ?thesis
    unfolding email2skype_def isTempEmail_def e
    using x by (simp add: validator_isEmail_def axios_get_def)
qed

text \<open>The theorem at \<open>not-an-email\<close>, \<open>bad\<close> and \<open>a@b.com\<close>.\<close>

theorem email_format_checked_witness:
  "\<not> list_all trimmable (str ''not-an-email'') \<and> \<not> isEmail demo_validator (str ''not-an-email'')
   \<and> email2skype demo_validator echo_transport demo_client (JString (str ''not-an-email'')) []
        = (Inr (Synthetic (str ''Please enter a valid email address!'')), [])
   \<and> \<not> list_all trimmable (str ''bad'') \<and> \<not> isEmail demo_validator (str ''bad'')
   \<and> isTempEmail demo_validator echo_transport demo_client (JString (str ''bad'')) []
        = (Inr (Synthetic (str ''Please enter a valid email address!'')), [])
   \<and> \<not> list_all trimmable (str ''a@b.com'') \<and> isEmail demo_validator (str ''a@b.com'')
   \<and> email2skype demo_validator echo_transport demo_client (JString (str ''a@b.com'')) []
        = (Inr (Transport (str ''https://webresolver.nl/api.php?key=KEY&json&action=email2skype&string=a@b.com'')),
           [str ''https://webresolver.nl/api.php?key=KEY&json&action=email2skype&string=a@b.com''])
   \<and> sublist (str ''&action=email2skype&string=a@b.com'')
        (str ''https://webresolver.nl/api.php?key=KEY&json&action=email2skype&string=a@b.com'')"
proof -
  have h1: "\<not> list_all trimmable (str ''not-an-email'')" by (simp add: str_def ws_simps)
  have h2: "\<not> list_all trimmable (str ''bad'')" by (simp add: str_def ws_simps)
  have h3: "\<not> list_all trimmable (str ''a@b.com'')" by (simp add: str_def ws_simps)
  have i1: "\<not> isEmail demo_validator (str ''not-an-email'')"
    by (simp add: demo_simps str_def ws_simps)
  have i2: "\<not> isEmail demo_validator (str ''bad'')" by (simp add: demo_simps str_def ws_simps)
  have i3: "isEmail demo_validator (str ''a@b.com'')" by (simp add: demo_simps str_def ws_simps)
  have u: "echo_transport n u = u" for n u by (simp add: echo_transport_def)
  have b: "baseURL demo_client = str ''https://webresolver.nl/api.php?key=KEY''"
    by (simp add: demo_client_def)
  note a1 = email_format_checked [OF h1, where V = demo_validator and T = echo_transport
      and c = demo_client and net = "[]"]
  note a2 = email_format_checked [OF h2, where V = demo_validator and T = echo_transport
      and c = demo_client and net = "[]"]
  note a3 = email_format_checked [OF h3, where V = demo_validator and T = echo_transport
      and c = demo_client and net = "[]"]
  have c1: "email2skype demo_validator echo_transport demo_client (JString (str ''not-an-email'')) []
        = (Inr (Synthetic (str ''Please enter a valid email address!'')), [])"
    using a1 i1 by simp
  have c2: "isTempEmail demo_validator echo_transport demo_client (JString (str ''bad'')) []
        = (Inr (Synthetic (str ''Please enter a valid email address!'')), [])"
    using a2 i2 by simp
  have c3: "email2skype demo_validator echo_transport demo_client (JString (str ''a@b.com'')) []
        = (Inr (Transport (str ''https://webresolver.nl/api.php?key=KEY&json&action=email2skype&string=a@b.com'')),
           [str ''https://webresolver.nl/api.php?key=KEY&json&action=email2skype&string=a@b.com''])"
    using a3 i3 by (simp add: u b str_def)
  have c4: "sublist (str ''&action=email2skype&string=a@b.com'')
        (str ''https://webresolver.nl/api.php?key=KEY&json&action=email2skype&string=a@b.com'')"
    using a3 i3 by (simp add: u b str_def)
  show ?thesis
    by (intro conjI) (rule h1 i1 c1 h2 i2 c2 h3 i3 c3 c4)+
qed

section \<open>\<open>iplogger\<close>\<close>

text \<open>
  Claim C4. \<open>iplogger\<close> validates nothing and always issues its request. Called without
  arguments it requests a URL with an empty \<open>string=\<close> value, and with an empty
  \<open>logger=\<close> value as well: the parameter's default in the code is the empty string,
  where the method's documentation gives \<open>youtube\<close>.
\<close>

theorem iplogger_without_arguments:
  "iplogger T c JUndefined JUndefined net
     = (Inr (Transport (T net (baseURL c @ str ''&json&action=iplogger&string=&logger=''))),
        net @ [baseURL c @ str ''&json&action=iplogger&string=&logger=''])
   \<and> (\<exists>url. iplogger T c logger ident net = (Inr (Transport (T net url)), net @ [url]))
   \<and> \<not> sublist (str ''youtube'') (str ''&json&action=iplogger&string=&logger='')"
  by (simp add: iplogger_def axios_get_def str_def sublist_code)

section \<open>Requests of any method\<close>

lemma invoke_url_prefix:
  "case invoke m V T this a b net of (r, net') \<Rightarrow>
     net' = net \<or> (\<exists>rest. net' = net @ [baseURL this @ str ''&'' @ rest])"
  by (cases m) (simp_all add: method_defs axios_get_def str_def Let_def split: sum.split bool.split)

lemma invoke_no_request:
  "case invoke m V T this a b net of (r, net') \<Rightarrow>
     (r = Inl TypeError \<or> (\<exists>msg. r = Inr (Synthetic msg)) \<longrightarrow> net' = net)"
  by (cases m) (simp_all add: method_defs axios_get_def Let_def split: sum.split bool.split)

lemma invoke_params:
  assumes "amp_free k" "hash_free k" "amp_free (ToString a)"
    and "m = Portscan \<or> m = Iplogger \<longrightarrow> amp_free (ToString b)"
    and "baseURL this = str ''https://webresolver.nl/api.php?key='' @ k"
  shows "case invoke m V T this a b net of (r, net') \<Rightarrow>
     net' = net \<or> (\<exists>url. net' = net @ [url] \<and> param_values (str ''key'') url = [k]
            \<and> length (param_values (str ''action'') url) = 1)"
  using assms
  by (cases m) (simp_all add: method_defs axios_get_def Let_def url_simps split: sum.split bool.split)

lemma constructor_baseURL:
  "WebResolver_constructor key con = (Inr this, con') \<Longrightarrow>
   baseURL this = str ''https://webresolver.nl/api.php?key='' @ ToString key"
  by (auto simp: WebResolver_constructor_def split: sum.splits)

section \<open>\<open>portscan\<close> and its port\<close>

text \<open>
  Claim C6 as written says that without a port argument the URL contains no \<open>&port=\<close>
  parameter. The url is concatenated as it is, so \<open>portscan("example.com&port=22")\<close>
  requests a URL that contains \<open>&port=\<close>, and whose query has the parameter \<open>port=22\<close>.
\<close>

theorem portscan_port_counterexample:
  "portscan echo_transport demo_client (JString (str ''example.com&port=22'')) JUndefined []
     = (Inr (Transport (str ''https://webresolver.nl/api.php?key=KEY&json&action=portscan&string=example.com&port=22'')),
        [str ''https://webresolver.nl/api.php?key=KEY&json&action=portscan&string=example.com&port=22''])
   \<and> sublist (str ''&port='')
        (str ''https://webresolver.nl/api.php?key=KEY&json&action=portscan&string=example.com&port=22'')
   \<and> param_values (str ''port'')
        (str ''https://webresolver.nl/api.php?key=KEY&json&action=portscan&string=example.com&port=22'')
       = [str ''22'']"
  by (simp add: portscan_def isEmpty_def validator_isEmpty_def axios_get_def trim_def ws_simps
      demo_simps sublist_code param_values_def query_params_def query_string_def parse_param_def
      str_def)

text \<open>
  Claim C6, amended. With a non-blank url and no port argument (left out, or \<open>null\<close>),
  \<open>portscan\<close> issues a GET for exactly \<open>baseURL&json&action=portscan&string=<url>\<close>:
  nothing follows the url, and the query has no \<open>port\<close> parameter when the key and the
  url contain no \<open>&\<close>. With a port provided that is a string, a boolean or a safe integer,
  the URL is the same followed by \<open>&port=<port>\<close>, so it ends with \<open>&port=80\<close> for the
  port 80.
\<close>

theorem portscan_port_parameter:
  assumes "\<not> list_all trimmable s"
  shows "(port = JUndefined \<or> port = JNull \<longrightarrow>
            portscan T c (JString s) port net
              = (Inr (Transport (T net (baseURL c @ str ''&json&action=portscan&string='' @ s))),
                 net @ [baseURL c @ str ''&json&action=portscan&string='' @ s])
          \<and> (amp_free k \<and> amp_free s \<and> baseURL c = str ''https://webresolver.nl/api.php?key='' @ k \<longrightarrow>
               param_values (str ''port'') (baseURL c @ str ''&json&action=portscan&string='' @ s) = []))
    \<and> (port \<noteq> JUndefined \<and> port \<noteq> JNull \<and> prints_exactly port \<longrightarrow>
            portscan T c (JString s) port net
              = (Inr (Transport (T net (baseURL c @ str ''&json&action=portscan&string='' @ s
                                          @ str ''&port='' @ ToString port))),
                 net @ [baseURL c @ str ''&json&action=portscan&string='' @ s
                          @ str ''&port='' @ ToString port])
          \<and> suffix (str ''&port='' @ ToString port)
                (baseURL c @ str ''&json&action=portscan&string='' @ s
                   @ str ''&port='' @ ToString port))
    \<and> prints_exactly (JNumber 80) \<and> ToString (JNumber 80) = str ''80''"
proof -
  have e: "isEmpty (JString s) = Inr False" using assms by (rule isEmpty_nonblank)
  have "baseURL c @ str ''&json&action=portscan&string='' @ s @ str ''&port='' @ ToString port
          = (baseURL c @ str ''&json&action=portscan&string='' @ s) @ str ''&port='' @ ToString port"
    by simp
  then have x: "suffix (str ''&port='' @ ToString port)
      (baseURL c @ str ''&json&action=portscan&string='' @ s @ str ''&port='' @ ToString port)"
    by (rule suffixI)
  have y: "param_values (str ''port'') (baseURL c @ str ''&json&action=portscan&string='' @ s) = []"
    if "amp_free k" "amp_free s" "baseURL c = str ''https://webresolver.nl/api.php?key='' @ k"
    using that by (simp add: url_simps)
  have z: "prints_exactly (JNumber 80) \<and> ToString (JNumber 80) = str ''80''"
    by (simp add: safe_integer_def Number_toString_def digits.simps str_def)
  show ?thesis
    unfolding portscan_def e
    using x y z by (simp add: axios_get_def Let_def)
qed

text \<open>The theorem at \<open>example.com\<close>, without a port and with the port 80.\<close>

theorem portscan_port_parameter_witness:
  "\<not> list_all trimmable (str ''example.com'')
   \<and> amp_free (str ''KEY'') \<and> amp_free (str ''example.com'')
   \<and> baseURL demo_client = str ''https://webresolver.nl/api.php?key='' @ str ''KEY''
   \<and> portscan echo_transport demo_client (JString (str ''example.com'')) JUndefined []
       = (Inr (Transport (str ''https://webresolver.nl/api.php?key=KEY&json&action=portscan&string=example.com'')),
          [str ''https://webresolver.nl/api.php?key=KEY&json&action=portscan&string=example.com''])
   \<and> param_values (str ''port'')
        (str ''https://webresolver.nl/api.php?key=KEY&json&action=portscan&string=example.com'') = []
   \<and> prints_exactly (JNumber 80)
   \<and> portscan echo_transport demo_client (JString (str ''example.com'')) (JNumber 80) []
       = (Inr (Transport (str ''https://webresolver.nl/api.php?key=KEY&json&action=portscan&string=example.com&port=80'')),
          [str ''https://webresolver.nl/api.php?key=KEY&json&action=portscan&string=example.com&port=80''])
   \<and> suffix (str ''&port=80'')
        (str ''https://webresolver.nl/api.php?key=KEY&json&action=portscan&string=example.com&port=80'')"
proof -
  have h: "\<not> list_all trimmable (str ''example.com'')" by (simp add: str_def ws_simps)
  have k1: "amp_free (str ''KEY'')" by (simp add: amp_free_def str_def)
  have k2: "amp_free (str ''example.com'')" by (simp add: amp_free_def str_def)
  have b: "baseURL demo_client = str ''https://webresolver.nl/api.php?key='' @ str ''KEY''"
    by (simp add: demo_client_def str_def)
  have u: "echo_transport n u = u" for n u by (simp add: echo_transport_def)
  have p: "Number_toString 80 = str ''80''"
    by (simp add: Number_toString_def digits.simps str_def)
  have s: "prints_exactly (JNumber 80)" by (simp add: safe_integer_def)
  note a = portscan_port_parameter [OF h, where T = echo_transport and c = demo_client
      and net = "[]" and port = JUndefined and k = "str ''KEY''"]
  note a' = portscan_port_parameter [OF h, where T = echo_transport and c = demo_client
      and net = "[]" and port = "JNumber 80" and k = "str ''KEY''"]
  have c1: "portscan echo_transport demo_client (JString (str ''example.com'')) JUndefined []
       = (Inr (Transport (str ''https://webresolver.nl/api.php?key=KEY&json&action=portscan&string=example.com'')),
          [str ''https://webresolver.nl/api.php?key=KEY&json&action=portscan&string=example.com''])"
    using a by (simp add: u b str_def)
  have c2: "param_values (str ''port'')
        (str ''https://webresolver.nl/api.php?key=KEY&json&action=portscan&string=example.com'') = []"
    using a k1 k2 b by (simp add: str_def)
  have c3: "portscan echo_transport demo_client (JString (str ''example.com'')) (JNumber 80) []
       = (Inr (Transport (str ''https://webresolver.nl/api.php?key=KEY&json&action=portscan&string=example.com&port=80'')),
          [str ''https://webresolver.nl/api.php?key=KEY&json&action=portscan&string=example.com&port=80''])"
    using a' s by (simp add: u b p str_def)
  have c4: "suffix (str ''&port=80'')
        (str ''https://webresolver.nl/api.php?key=KEY&json&action=portscan&string=example.com&port=80'')"
    using a' s by (simp add: b p str_def)
  show ?thesis
    by (intro conjI) (rule h k1 k2 b c1 c2 s c3 c4)+
qed

section \<open>Construction\<close>

text \<open>
  Claim C8 as written says that after construction with an empty or blank key every
  request URL embeds the empty key segment. The key is appended as it is: constructed
  with the blank key of one space, the client requests URLs with \<open>key= &\<close>, not
  \<open>key=&\<close>, and the value of their \<open>key\<close> parameter is that space.
\<close>

theorem blank_key_counterexample:
  "WebResolver_constructor (JString [32]) []
     = (Inr \<lparr>baseURL = str ''https://webresolver.nl/api.php?key= ''\<rparr>,
        [str ''Get your API key here: https://webresolver.nl/api/plans''])
   \<and> dns echo_transport \<lparr>baseURL = str ''https://webresolver.nl/api.php?key= ''\<rparr>
        (JString (str ''example.com'')) []
     = (Inr (Transport (str ''https://webresolver.nl/api.php?key= &json&action=dns&string=example.com'')),
        [str ''https://webresolver.nl/api.php?key= &json&action=dns&string=example.com''])
   \<and> \<not> prefix (str ''https://webresolver.nl/api.php?key=&'')
         (str ''https://webresolver.nl/api.php?key= &json&action=dns&string=example.com'')
   \<and> param_values (str ''key'')
         (str ''https://webresolver.nl/api.php?key= &json&action=dns&string=example.com'') = [[32]]"
  by (simp add: WebResolver_constructor_def dns_def isEmpty_def validator_isEmpty_def axios_get_def
      trim_def ws_simps echo_transport_def param_values_def query_params_def query_string_def
      parse_param_def str_def)

text \<open>
  Claim C8, amended. Constructing the client with an empty or blank key does not throw:
  it logs the warning and returns a client whose base URL is the endpoint with the key
  appended as it is. Every request of that client has a URL in which \<open>key=\<close> is followed
  by that very key and then \<open>&\<close>, so that the first parameter of the query is \<open>key\<close>
  with the key as its value: the empty key segment \<open>key=&\<close> for the empty key and for
  no other.
\<close>

theorem blank_key_construction:
  assumes "list_all trimmable k"
  shows "WebResolver_constructor (JString k) con
           = (Inr \<lparr>baseURL = str ''https://webresolver.nl/api.php?key='' @ k\<rparr>,
              con @ [str ''Get your API key here: https://webresolver.nl/api/plans''])
    \<and> (WebResolver_constructor (JString k) con = (Inr this, con')
         \<and> invoke m V T this a b net = (r, net')
         \<longrightarrow> net' = net
           \<or> (\<exists>rest. net' = net @ [str ''https://webresolver.nl/api.php?key='' @ k @ str ''&'' @ rest]
                \<and> hd (query_params (str ''https://webresolver.nl/api.php?key='' @ k @ str ''&'' @ rest))
                    = (str ''key'', k)
                \<and> (prefix (str ''https://webresolver.nl/api.php?key=&'')
                      (str ''https://webresolver.nl/api.php?key='' @ k @ str ''&'' @ rest)
                    \<longleftrightarrow> k = [])))"
proof -
  have e: "isEmpty (JString k) = Inr True" using assms by (rule isEmpty_blank)
  have c: "WebResolver_constructor (JString k) con
           = (Inr \<lparr>baseURL = str ''https://webresolver.nl/api.php?key='' @ k\<rparr>,
              con @ [str ''Get your API key here: https://webresolver.nl/api/plans''])"
    unfolding WebResolver_constructor_def e by simp
  have kf: "amp_free k" "hash_free k" using blank_clean [OF assms] by simp_all
  have s: "hd (query_params (str ''https://webresolver.nl/api.php?key='' @ k @ str ''&'' @ rest))
             = (str ''key'', k)" for rest
    using kf by (simp add: url_simps)
  have n: "prefix (str ''https://webresolver.nl/api.php?key=&'')
             (str ''https://webresolver.nl/api.php?key='' @ k @ str ''&'' @ rest) \<longleftrightarrow> k = []" for rest
    using assms by (cases k) (auto simp: str_def ws_simps)
  have i: "net' = net
           \<or> (\<exists>rest. net' = net @ [str ''https://webresolver.nl/api.php?key='' @ k @ str ''&'' @ rest]
                \<and> hd (query_params (str ''https://webresolver.nl/api.php?key='' @ k @ str ''&'' @ rest))
                    = (str ''key'', k)
                \<and> (prefix (str ''https://webresolver.nl/api.php?key=&'')
                      (str ''https://webresolver.nl/api.php?key='' @ k @ str ''&'' @ rest)
                    \<longleftrightarrow> k = []))"
    if "WebResolver_constructor (JString k) con = (Inr this, con')"
      and "invoke m V T this a b net = (r, net')"
  proof -
    have "this = \<lparr>baseURL = str ''https://webresolver.nl/api.php?key='' @ k\<rparr>"
      using that(1) c by simp
    then have "net' = net
        \<or> (\<exists>rest. net' = net @ [str ''https://webresolver.nl/api.php?key='' @ k @ str ''&'' @ rest])"
      using invoke_url_prefix [where m = m and V = V and T = T and a = a and b = b and net = net
          and this = this] that(2)
      by simp
    then show ?thesis using s n by blast
  qed
  show ?thesis using c i by blast
qed

text \<open>The theorem at the key of one space and at the empty key, with a \<open>dns\<close> request.\<close>

theorem blank_key_construction_witness:
  "list_all trimmable [32]
   \<and> WebResolver_constructor (JString [32]) []
        = (Inr \<lparr>baseURL = str ''https://webresolver.nl/api.php?key= ''\<rparr>,
           [str ''Get your API key here: https://webresolver.nl/api/plans''])
   \<and> invoke Dns demo_validator echo_transport \<lparr>baseURL = str ''https://webresolver.nl/api.php?key= ''\<rparr>
        (JString (str ''example.com'')) JUndefined []
        = (Inr (Transport (str ''https://webresolver.nl/api.php?key= &json&action=dns&string=example.com'')),
           [str ''https://webresolver.nl/api.php?key= &json&action=dns&string=example.com''])
   \<and> hd (query_params (str ''https://webresolver.nl/api.php?key= &json&action=dns&string=example.com''))
        = (str ''key'', [32])
   \<and> list_all trimmable []
   \<and> WebResolver_constructor (JString []) []
        = (Inr \<lparr>baseURL = str ''https://webresolver.nl/api.php?key=''\<rparr>,
           [str ''Get your API key here: https://webresolver.nl/api/plans''])
   \<and> invoke Dns demo_validator echo_transport \<lparr>baseURL = str ''https://webresolver.nl/api.php?key=''\<rparr>
        (JString (str ''example.com'')) JUndefined []
        = (Inr (Transport (str ''https://webresolver.nl/api.php?key=&json&action=dns&string=example.com'')),
           [str ''https://webresolver.nl/api.php?key=&json&action=dns&string=example.com''])
   \<and> prefix (str ''https://webresolver.nl/api.php?key=&'')
        (str ''https://webresolver.nl/api.php?key=&json&action=dns&string=example.com'')"
proof -
  have h1: "list_all trimmable [32]" by (simp add: ws_simps)
  have h0: "list_all trimmable []" by simp
  have k1: "WebResolver_constructor (JString [32]) []
        = (Inr \<lparr>baseURL = str ''https://webresolver.nl/api.php?key= ''\<rparr>,
           [str ''Get your API key here: https://webresolver.nl/api/plans''])"
    by (simp add: WebResolver_constructor_def isEmpty_def trim_def ws_simps str_def)
  have k0: "WebResolver_constructor (JString []) []
        = (Inr \<lparr>baseURL = str ''https://webresolver.nl/api.php?key=''\<rparr>,
           [str ''Get your API key here: https://webresolver.nl/api/plans''])"
    by (simp add: WebResolver_constructor_def isEmpty_def trim_def str_def)
  have d1: "invoke Dns demo_validator echo_transport \<lparr>baseURL = str ''https://webresolver.nl/api.php?key= ''\<rparr>
        (JString (str ''example.com'')) JUndefined []
        = (Inr (Transport (str ''https://webresolver.nl/api.php?key= &json&action=dns&string=example.com'')),
           [str ''https://webresolver.nl/api.php?key= &json&action=dns&string=example.com''])"
    by (simp add: dns_def isEmpty_def validator_isEmpty_def axios_get_def trim_def ws_simps
        echo_transport_def str_def)
  have d0: "invoke Dns demo_validator echo_transport \<lparr>baseURL = str ''https://webresolver.nl/api.php?key=''\<rparr>
        (JString (str ''example.com'')) JUndefined []
        = (Inr (Transport (str ''https://webresolver.nl/api.php?key=&json&action=dns&string=example.com'')),
           [str ''https://webresolver.nl/api.php?key=&json&action=dns&string=example.com''])"
    by (simp add: dns_def isEmpty_def validator_isEmpty_def axios_get_def trim_def ws_simps
        echo_transport_def str_def)
  note a1 = blank_key_construction [OF h1, where con = "[]", THEN conjunct2, rule_format,
      OF conjI, OF k1 d1]
  note a0 = blank_key_construction [OF h0, where con = "[]", THEN conjunct2, rule_format,
      OF conjI, OF k0 d0]
  have c1: "hd (query_params (str ''https://webresolver.nl/api.php?key= &json&action=dns&string=example.com''))
        = (str ''key'', [32])"
    using a1 by (auto simp: str_def)
  have c0: "prefix (str ''https://webresolver.nl/api.php?key=&'')
        (str ''https://webresolver.nl/api.php?key=&json&action=dns&string=example.com'')"
    using a0 by (auto simp: str_def)
  show ?thesis
    by (intro conjI) (rule h1 k1 d1 c1 h0 k0 d0 c0)+
qed

text \<open>
  Claim C10. Constructed with \<open>undefined\<close> or \<open>null\<close> for the key, the client gets a
  base URL that ends in the text \<open>undefined\<close> or \<open>null\<close>, and every request it makes
  has that text as its key (\<open>key=undefined&\<close>, \<open>key=null&\<close>), not an empty key segment.
\<close>

theorem missing_key_literal:
  "WebResolver_constructor JUndefined con
     = (Inr \<lparr>baseURL = str ''https://webresolver.nl/api.php?key=undefined''\<rparr>,
        con @ [str ''Get your API key here: https://webresolver.nl/api/plans''])
   \<and> WebResolver_constructor JNull con
     = (Inr \<lparr>baseURL = str ''https://webresolver.nl/api.php?key=null''\<rparr>,
        con @ [str ''Get your API key here: https://webresolver.nl/api/plans''])
   \<and> (invoke m V T \<lparr>baseURL = str ''https://webresolver.nl/api.php?key=undefined''\<rparr> a b net = (r, net')
        \<longrightarrow> net' = net
          \<or> (\<exists>url. net' = net @ [url]
                \<and> prefix (str ''https://webresolver.nl/api.php?key=undefined&'') url
                \<and> \<not> prefix (str ''https://webresolver.nl/api.php?key=&'') url))
   \<and> (invoke m V T \<lparr>baseURL = str ''https://webresolver.nl/api.php?key=null''\<rparr> a b net = (r, net')
        \<longrightarrow> net' = net
          \<or> (\<exists>url. net' = net @ [url]
                \<and> prefix (str ''https://webresolver.nl/api.php?key=null&'') url
                \<and> \<not> prefix (str ''https://webresolver.nl/api.php?key=&'') url))"
proof -
  have c1: "WebResolver_constructor JUndefined con
     = (Inr \<lparr>baseURL = str ''https://webresolver.nl/api.php?key=undefined''\<rparr>,
        con @ [str ''Get your API key here: https://webresolver.nl/api/plans''])"
    unfolding WebResolver_constructor_def isEmpty_undefined by (simp add: str_def)
  have c2: "WebResolver_constructor JNull con
     = (Inr \<lparr>baseURL = str ''https://webresolver.nl/api.php?key=null''\<rparr>,
        con @ [str ''Get your API key here: https://webresolver.nl/api/plans''])"
    unfolding WebResolver_constructor_def isEmpty_null by (simp add: str_def)
  have i1: "net' = net
          \<or> (\<exists>url. net' = net @ [url]
                \<and> prefix (str ''https://webresolver.nl/api.php?key=undefined&'') url
                \<and> \<not> prefix (str ''https://webresolver.nl/api.php?key=&'') url)"
    if "invoke m V T \<lparr>baseURL = str ''https://webresolver.nl/api.php?key=undefined''\<rparr> a b net = (r, net')"
    using invoke_url_prefix [where m = m and V = V and T = T and a = a and b = b and net = net
        and this = "\<lparr>baseURL = str ''https://webresolver.nl/api.php?key=undefined''\<rparr>"]
      that by (auto simp: str_def)
  have i2: "net' = net
          \<or> (\<exists>url. net' = net @ [url]
                \<and> prefix (str ''https://webresolver.nl/api.php?key=null&'') url
                \<and> \<not> prefix (str ''https://webresolver.nl/api.php?key=&'') url)"
    if "invoke m V T \<lparr>baseURL = str ''https://webresolver.nl/api.php?key=null''\<rparr> a b net = (r, net')"
    using invoke_url_prefix [where m = m and V = V and T = T and a = a and b = b and net = net
        and this = "\<lparr>baseURL = str ''https://webresolver.nl/api.php?key=null''\<rparr>"]
      that by (auto simp: str_def)
  show ?thesis using c1 c2 i1 i2 by blast
qed

text \<open>The theorem with a \<open>dns\<close> request of the client constructed with \<open>undefined\<close>.\<close>

theorem missing_key_literal_witness:
  "WebResolver_constructor JUndefined []
     = (Inr \<lparr>baseURL = str ''https://webresolver.nl/api.php?key=undefined''\<rparr>,
        [str ''Get your API key here: https://webresolver.nl/api/plans''])
   \<and> invoke Dns demo_validator echo_transport
        \<lparr>baseURL = str ''https://webresolver.nl/api.php?key=undefined''\<rparr>
        (JString (str ''example.com'')) JUndefined []
        = (Inr (Transport (str ''https://webresolver.nl/api.php?key=undefined&json&action=dns&string=example.com'')),
           [str ''https://webresolver.nl/api.php?key=undefined&json&action=dns&string=example.com''])
   \<and> prefix (str ''https://webresolver.nl/api.php?key=undefined&'')
        (str ''https://webresolver.nl/api.php?key=undefined&json&action=dns&string=example.com'')
   \<and> \<not> prefix (str ''https://webresolver.nl/api.php?key=&'')
        (str ''https://webresolver.nl/api.php?key=undefined&json&action=dns&string=example.com'')"
proof -
  have d: "invoke Dns demo_validator echo_transport
        \<lparr>baseURL = str ''https://webresolver.nl/api.php?key=undefined''\<rparr>
        (JString (str ''example.com'')) JUndefined []
        = (Inr (Transport (str ''https://webresolver.nl/api.php?key=undefined&json&action=dns&string=example.com'')),
           [str ''https://webresolver.nl/api.php?key=undefined&json&action=dns&string=example.com''])"
    by (simp add: dns_def isEmpty_def validator_isEmpty_def axios_get_def trim_def ws_simps
        echo_transport_def str_def)
  note a = missing_key_literal [where con = "[]" and m = Dns and V = demo_validator
      and T = echo_transport and a = "JString (str ''example.com'')" and b = JUndefined
      and net = "[]"
      and r = "Inr (Transport (str ''https://webresolver.nl/api.php?key=undefined&json&action=dns&string=example.com''))"
      and net' = "[str ''https://webresolver.nl/api.php?key=undefined&json&action=dns&string=example.com'']"]
  have c1: "WebResolver_constructor JUndefined []
     = (Inr \<lparr>baseURL = str ''https://webresolver.nl/api.php?key=undefined''\<rparr>,
        [str ''Get your API key here: https://webresolver.nl/api/plans''])"
    using a by simp
  have c3: "prefix (str ''https://webresolver.nl/api.php?key=undefined&'')
        (str ''https://webresolver.nl/api.php?key=undefined&json&action=dns&string=example.com'')
   \<and> \<not> prefix (str ''https://webresolver.nl/api.php?key=&'')
        (str ''https://webresolver.nl/api.php?key=undefined&json&action=dns&string=example.com'')"
    using a d by simp
  show ?thesis
    using c1 d c3 by blast
qed

section \<open>One key, one action\<close>

text \<open>
  Claim C2 as written says that every request has exactly one \<open>action\<close> parameter. The
  arguments are concatenated as they are, so \<open>skypeResolve("x&action=dns")\<close> requests a
  URL whose query has two: \<open>action=resolve\<close> and \<open>action=dns\<close>.
\<close>

theorem second_action_counterexample:
  "skypeResolve echo_transport demo_client (JString (str ''x&action=dns'')) []
     = (Inr (Transport (str ''https://webresolver.nl/api.php?key=KEY&json&action=resolve&string=x&action=dns'')),
        [str ''https://webresolver.nl/api.php?key=KEY&json&action=resolve&string=x&action=dns''])
   \<and> param_values (str ''action'')
        (str ''https://webresolver.nl/api.php?key=KEY&json&action=resolve&string=x&action=dns'')
       = [str ''resolve'', str ''dns'']"
  by (simp add: skypeResolve_def isEmpty_def validator_isEmpty_def axios_get_def trim_def ws_simps
      demo_simps param_values_def query_params_def query_string_def parse_param_def str_def)

text \<open>
  Claim C2, amended. A call of any method on a constructed client makes at most one
  request, and its URL starts with the base URL fixed at construction. When the key
  contains no \<open>&\<close> and no \<open>#\<close> and the arguments that the method puts into the URL
  contain no \<open>&\<close>, the query of that URL has exactly one \<open>key\<close> parameter, whose value is
  the key given at construction, and exactly one \<open>action\<close> parameter. Whenever the method
  returns a local error object (or throws), no request is made.
\<close>

theorem clean_requests_one_key_one_action:
  assumes "WebResolver_constructor key con = (Inr this, con')"
    and "invoke m V T this a b net = (r, net')"
  shows "(net' = net \<or> (\<exists>rest. net' = net @ [baseURL this @ str ''&'' @ rest]))
    \<and> (clean (ToString key) \<and> amp_free (ToString a)
          \<and> (m = Portscan \<or> m = Iplogger \<longrightarrow> amp_free (ToString b)) \<longrightarrow>
            net' = net
          \<or> (\<exists>url. net' = net @ [url]
                \<and> param_values (str ''key'') url = [ToString key]
                \<and> length (param_values (str ''action'') url) = 1))
    \<and> (r = Inl TypeError \<or> (\<exists>msg. r = Inr (Synthetic msg)) \<longrightarrow> net' = net)"
proof -
  have base: "baseURL this = str ''https://webresolver.nl/api.php?key='' @ ToString key"
    using assms(1) by (rule constructor_baseURL)
  have one: "net' = net
      \<or> (\<exists>url. net' = net @ [url]
            \<and> param_values (str ''key'') url = [ToString key]
            \<and> length (param_values (str ''action'') url) = 1)"
    if "clean (ToString key)" "amp_free (ToString a)"
      "m = Portscan \<or> m = Iplogger \<longrightarrow> amp_free (ToString b)"
  proof -
    have "amp_free (ToString key)" "hash_free (ToString key)"
      using that(1) by (simp_all add: clean_def)
    from invoke_params [OF this that(2) that(3) base, where V = V and T = T and net = net]
    show ?thesis using assms(2) by simp
  qed
  have none: "net' = net" if "r = Inl TypeError \<or> (\<exists>msg. r = Inr (Synthetic msg))"
    using invoke_no_request [where m = m and V = V and T = T and this = this and a = a
        and b = b and net = net] assms(2) that
    by auto
  have pre: "net' = net \<or> (\<exists>rest. net' = net @ [baseURL this @ str ''&'' @ rest])"
    using invoke_url_prefix [where m = m and V = V and T = T and this = this and a = a
        and b = b and net = net] assms(2)
    by simp
  show ?thesis using pre one none by blast
qed

text \<open>The theorem at \<open>portscan("a#b", 80)\<close> and at \<open>dns(" ")\<close>, key \<open>KEY\<close>.\<close>

theorem clean_requests_one_key_one_action_witness:
  "WebResolver_constructor (JString (str ''KEY'')) [] = (Inr demo_client, [])
   \<and> clean (ToString (JString (str ''KEY''))) \<and> amp_free (ToString (JString (str ''a#b'')))
   \<and> amp_free (ToString (JNumber 80))
   \<and> invoke Portscan demo_validator echo_transport demo_client (JString (str ''a#b'')) (JNumber 80) []
       = (Inr (Transport (str ''https://webresolver.nl/api.php?key=KEY&json&action=portscan&string=a#b&port=80'')),
          [str ''https://webresolver.nl/api.php?key=KEY&json&action=portscan&string=a#b&port=80''])
   \<and> param_values (str ''key'')
        (str ''https://webresolver.nl/api.php?key=KEY&json&action=portscan&string=a#b&port=80'')
       = [str ''KEY'']
   \<and> length (param_values (str ''action'')
        (str ''https://webresolver.nl/api.php?key=KEY&json&action=portscan&string=a#b&port=80''))
       = 1
   \<and> invoke Dns demo_validator echo_transport demo_client (JString [32]) (JString (str ''&'')) [[]]
       = (Inr (Synthetic (str ''Please enter a domain!'')), [[]])"
proof -
  have k: "WebResolver_constructor (JString (str ''KEY'')) [] = (Inr demo_client, [])"
    by (simp add: WebResolver_constructor_def isEmpty_def validator_isEmpty_def trim_def ws_simps
        demo_client_def str_def)
  have p: "Number_toString 80 = str ''80''"
    by (simp add: Number_toString_def digits.simps str_def)
  have q1: "clean (ToString (JString (str ''KEY'')))"
    by (simp add: clean_def amp_free_def hash_free_def str_def)
  have q2: "amp_free (ToString (JString (str ''a#b'')))" by (simp add: amp_free_def str_def)
  have q3: "amp_free (ToString (JNumber 80))" by (simp add: p) (simp add: amp_free_def str_def)
  have i1: "invoke Portscan demo_validator echo_transport demo_client
        (JString (str ''a#b'')) (JNumber 80) []
       = (Inr (Transport (str ''https://webresolver.nl/api.php?key=KEY&json&action=portscan&string=a#b&port=80'')),
          [str ''https://webresolver.nl/api.php?key=KEY&json&action=portscan&string=a#b&port=80''])"
    by (simp add: portscan_def isEmpty_def validator_isEmpty_def axios_get_def trim_def ws_simps
        demo_simps p str_def)
  have i2: "invoke Dns demo_validator echo_transport demo_client (JString [32]) (JString (str ''&'')) [[]]
       = (Inr (Synthetic (str ''Please enter a domain!'')), [[]])"
    by (simp add: dns_def isEmpty_def trim_def ws_simps)
  note a1 = clean_requests_one_key_one_action [OF k i1]
  note a2 = clean_requests_one_key_one_action [OF k i2]
  have c: "param_values (str ''key'')
        (str ''https://webresolver.nl/api.php?key=KEY&json&action=portscan&string=a#b&port=80'')
       = [str ''KEY'']
   \<and> length (param_values (str ''action'')
        (str ''https://webresolver.nl/api.php?key=KEY&json&action=portscan&string=a#b&port=80''))
       = 1"
    using a1 q1 q2 q3 by simp
  have "[[]] = ([[]] :: network)" using a2 by simp
  then show ?thesis
    using k q1 q2 q3 i1 c i2 by blast
qed

end
